theory Spec2Isabelle
  imports Complex_Main "HOL-Library.AList"
begin

section \<open>Python strings\<close>

text \<open>
  A Python \<open>str\<close> is modelled as a \<open>string\<close> whose characters are the code points
  below 256. On that range \<open>str.lower\<close> maps \<open>A..Z\<close> and the Latin-1 capitals
  (192..222 without the multiplication sign 215) to the letter 32 places later, and
  \<open>str.strip\<close> removes the white space characters 9..13, 28..32, 133 and 160 from
  both ends.
\<close>

definition lower_char :: "char \<Rightarrow> char" where
  "lower_char c =
     (let n = (of_char c :: nat)
      in if (65 \<le> n \<and> n \<le> 90) \<or> (192 \<le> n \<and> n \<le> 222 \<and> n \<noteq> 215)
         then char_of (n + 32) else c)"

definition lower :: "string \<Rightarrow> string" where
  "lower s = map lower_char s"

definition isspace :: "char \<Rightarrow> bool" where
  "isspace c =
     (let n = (of_char c :: nat)
      in (9 \<le> n \<and> n \<le> 13) \<or> (28 \<le> n \<and> n \<le> 32) \<or> n = 133 \<or> n = 160)"

definition strip :: "string \<Rightarrow> string" where
  "strip s = rev (dropWhile isspace (rev (dropWhile isspace s)))"

text \<open>\<open>s.split(c)\<close> for a one-character separator: never empty, one more piece than separators.\<close>

fun split :: "char \<Rightarrow> string \<Rightarrow> string list" where
  "split c [] = [[]]"
| "split c (x # xs) =
     (if x = c then [] # split c xs
      else (case split c xs of
              [] \<Rightarrow> [[x]]
            | w # ws \<Rightarrow> (x # w) # ws))"

text \<open>\<open>sep.join(xs)\<close>.\<close>

fun join :: "string \<Rightarrow> string list \<Rightarrow> string" where
  "join sep [] = []"
| "join sep [x] = x"
| "join sep (x # y # ys) = x @ sep @ join sep (y # ys)"

section \<open>Domains (shared/domains.py)\<close>

datatype Domain =
    ADVANCED_SECURITY
  | PIPELINES
  | CORE
  | REPOSITORIES
  | SEARCH
  | TEST_PLANS
  | WIKI
  | WORK
  | WORK_ITEMS

fun domain_value :: "Domain \<Rightarrow> string" where
  "domain_value ADVANCED_SECURITY = ''advanced-security''"
| "domain_value PIPELINES = ''pipelines''"
| "domain_value CORE = ''core''"
| "domain_value REPOSITORIES = ''repositories''"
| "domain_value SEARCH = ''search''"
| "domain_value TEST_PLANS = ''test-plans''"
| "domain_value WIKI = ''wiki''"
| "domain_value WORK = ''work''"
| "domain_value WORK_ITEMS = ''work-items''"

text \<open>The members of the enumeration in the order \<open>for domain in Domain\<close> visits them.\<close>

definition Domain_members :: "Domain list" where
  "Domain_members =
     [ADVANCED_SECURITY, PIPELINES, CORE, REPOSITORIES, SEARCH, TEST_PLANS, WIKI, WORK,
      WORK_ITEMS]"

definition ALL_DOMAINS :: string where
  "ALL_DOMAINS = ''all''"

text \<open>\<open>[d.value for d in Domain]\<close>, also the result of \<open>get_available_domains\<close>.\<close>

definition available_domains :: "string list" where
  "available_domains = map domain_value Domain_members"

text \<open>
  The manager object holds the set \<open>enabled_domains\<close>; \<open>printed\<close> collects the lines
  the constructor writes to standard output, oldest first.
\<close>

record DomainsManager =
  enabled_domains :: "string set"
  printed :: "string list"

datatype domains_input =
    NoInput
  | StrInput string
  | ListInput "string list"

definition enable_all_domains :: "DomainsManager \<Rightarrow> DomainsManager" where
  "enable_all_domains m =
     fold (\<lambda>d m'. m'\<lparr>enabled_domains := insert (domain_value d) (enabled_domains m')\<rparr>)
       Domain_members m"

definition invalid_domain_message :: "string \<Rightarrow> string" where
  "invalid_domain_message d =
     ''Error: Specified invalid domain '' @ [CHR 0x27] @ d @ [CHR 0x27] @
     ''. Please specify exactly as available domains: '' @ join '', '' available_domains"

text \<open>The body of the \<open>for domain in domains\<close> loop of \<open>_validate_and_add_domains\<close>.\<close>

definition validate_step :: "string \<Rightarrow> DomainsManager \<Rightarrow> DomainsManager" where
  "validate_step d m =
     (if d \<in> set available_domains then m\<lparr>enabled_domains := insert d (enabled_domains m)\<rparr>
      else if d = ALL_DOMAINS then enable_all_domains m
      else m\<lparr>printed := printed m @ [invalid_domain_message d]\<rparr>)"

definition validate_and_add_domains :: "string list \<Rightarrow> DomainsManager \<Rightarrow> DomainsManager" where
  "validate_and_add_domains ds m =
     (let m' = fold validate_step ds m
      in if enabled_domains m' = {} then enable_all_domains m' else m')"

definition strip_lower :: "string \<Rightarrow> string" where
  "strip_lower d = lower (strip d)"

definition handle_array_input :: "string list \<Rightarrow> DomainsManager \<Rightarrow> DomainsManager" where
  "handle_array_input xs m =
     (if length xs = 0 \<or> ALL_DOMAINS \<in> set xs then enable_all_domains m
      else validate_and_add_domains (map strip_lower xs) m)"

definition handle_string_input :: "string \<Rightarrow> DomainsManager \<Rightarrow> DomainsManager" where
  "handle_string_input s m =
     (if s = ALL_DOMAINS then enable_all_domains m
      else validate_and_add_domains (map strip_lower (split CHR '','' s)) m)"

text \<open>\<open>not domains_input\<close> holds for \<open>None\<close>, the empty string and the empty list.\<close>

fun parse_domains :: "domains_input \<Rightarrow> DomainsManager \<Rightarrow> DomainsManager" where
  "parse_domains NoInput m = enable_all_domains m"
| "parse_domains (StrInput s) m =
     (if s = [] then enable_all_domains m else handle_string_input s m)"
| "parse_domains (ListInput xs) m =
     (if xs = [] then enable_all_domains m else handle_array_input xs m)"

text \<open>The constructor \<open>DomainsManager(domains_input)\<close>.\<close>

definition new_DomainsManager :: "domains_input \<Rightarrow> DomainsManager" where
  "new_DomainsManager inp = parse_domains inp \<lparr>enabled_domains = {}, printed = []\<rparr>"

definition is_domain_enabled :: "DomainsManager \<Rightarrow> string \<Rightarrow> bool" where
  "is_domain_enabled m d \<longleftrightarrow> d \<in> enabled_domains m"

definition get_enabled_domains :: "DomainsManager \<Rightarrow> string set" where
  "get_enabled_domains m = enabled_domains m"

section \<open>User agent (useragent.py)\<close>

record McpClientInfo =
  client_name :: string
  client_version :: string

record UserAgentComposer =
  user_agent :: string
  mcp_client_info_appended :: bool

definition new_UserAgentComposer :: "string \<Rightarrow> UserAgentComposer" where
  "new_UserAgentComposer package_version =
     \<lparr>user_agent = ''AzureDevOps.MCP/'' @ package_version @ '' (python)'',
      mcp_client_info_appended = False\<rparr>"

text \<open>
  \<open>info and info.name and info.version\<close>: an \<open>McpClientInfo\<close> object is truthy, a string is
  truthy when it is not empty.
\<close>

fun append_mcp_client_info ::
  "UserAgentComposer \<Rightarrow> McpClientInfo option \<Rightarrow> UserAgentComposer" where
  "append_mcp_client_info c None = c"
| "append_mcp_client_info c (Some info) =
     (if \<not> mcp_client_info_appended c \<and> client_name info \<noteq> [] \<and> client_version info \<noteq> []
      then c\<lparr>user_agent := user_agent c @ '' '' @ client_name info @ ''/'' @ client_version info,
             mcp_client_info_appended := True\<rparr>
      else c)"

text \<open>A sequence of calls, and the number of calls in it that change the string.\<close>

fun append_all :: "UserAgentComposer \<Rightarrow> McpClientInfo option list \<Rightarrow> UserAgentComposer" where
  "append_all c [] = c"
| "append_all c (i # is) = append_all (append_mcp_client_info c i) is"

fun user_agent_changes :: "UserAgentComposer \<Rightarrow> McpClientInfo option list \<Rightarrow> nat" where
  "user_agent_changes c [] = 0"
| "user_agent_changes c (i # is) =
     (if user_agent (append_mcp_client_info c i) \<noteq> user_agent c then 1 else 0) +
     user_agent_changes (append_mcp_client_info c i) is"

section \<open>Exceptions and values of the Python run time\<close>

text \<open>
  An exception is its class and its message; \<open>str(e)\<close> is the message. Every class here
  derives from \<open>Exception\<close>, so \<open>except Exception\<close> catches all of them, while
  \<open>except AttributeError\<close> catches only the second.
\<close>

datatype py_exception =
    Exception string
  | AttributeError string
  | TypeError string

fun str_exc :: "py_exception \<Rightarrow> string" where
  "str_exc (Exception m) = m"
| "str_exc (AttributeError m) = m"
| "str_exc (TypeError m) = m"

fun is_AttributeError :: "py_exception \<Rightarrow> bool" where
  "is_AttributeError (AttributeError m) = True"
| "is_AttributeError e = False"

text \<open>Decimal digits of a natural number, as \<open>str\<close> and an f-string print an \<open>int\<close>.\<close>

fun str_nat :: "nat \<Rightarrow> string" where
  "str_nat n =
     (if n < 10 then [char_of (48 + n)]
      else str_nat (n div 10) @ [char_of (48 + n mod 10)])"

declare str_nat.simps [simp del]

section \<open>Organization tenants (org_tenants.py)\<close>

text \<open>
  \<open>refreshedOn\<close> is whatever JSON value the cache file holds: a number of milliseconds,
  or a value on which the subtraction in \<open>is_cache_entry_expired\<close> raises.
\<close>

datatype refreshed = Millis real | NotANumber

record OrgTenantCacheEntry =
  tenant_id :: string
  refreshed_on :: refreshed

definition CACHE_TTL_MS :: real where
  "CACHE_TTL_MS = 7 * 24 * 60 * 60 * 1000"

record http_response =
  status :: nat
  header :: "string \<Rightarrow> string option"

text \<open>
  What \<open>get_org_tenant\<close> reads from outside: the parsed cache file (\<open>None\<close> when it is
  missing or not valid), the two readings of \<open>time.time()\<close> in seconds, the answer to the
  HEAD request and the outcome of writing the cache file.
\<close>

record tenant_env =
  cache_file :: "(string \<times> OrgTenantCacheEntry) list option"
  time_at_check :: real
  time_at_store :: real
  http_head :: "string \<Rightarrow> py_exception + http_response"
  write_cache_file :: "(string \<times> OrgTenantCacheEntry) list \<Rightarrow> py_exception option"

datatype tenant_event =
    HeadRequest string
  | CacheWritten "(string \<times> OrgTenantCacheEntry) list"
  | Printed string

definition load_cache :: "tenant_env \<Rightarrow> (string \<times> OrgTenantCacheEntry) list" where
  "load_cache env = (case cache_file env of None \<Rightarrow> [] | Some c \<Rightarrow> c)"

definition try_saving_cache ::
  "tenant_env \<Rightarrow> (string \<times> OrgTenantCacheEntry) list \<Rightarrow> tenant_event list" where
  "try_saving_cache env cache =
     (case write_cache_file env cache of
        None \<Rightarrow> [CacheWritten cache]
      | Some e \<Rightarrow> [Printed (''Failed to save org tenants cache: '' @ str_exc e)])"

definition tenant_url :: "string \<Rightarrow> string" where
  "tenant_url org_name = ''https://vssps.dev.azure.com/'' @ org_name"

definition fetch_tenant_from_api :: "tenant_env \<Rightarrow> string \<Rightarrow> py_exception + string" where
  "fetch_tenant_from_api env org_name =
     (let attempt =
        (case http_head env (tenant_url org_name) of
           Inl e \<Rightarrow> Inl e
         | Inr response \<Rightarrow>
             if status response \<noteq> 404
             then Inl (Exception (''Expected status 404, got '' @ str_nat (status response)))
             else (case header response ''x-vss-resourcetenant'' of
                     None \<Rightarrow> Inl (Exception ''x-vss-resourcetenant header not found in response'')
                   | Some t \<Rightarrow>
                       if t = []
                       then Inl (Exception ''x-vss-resourcetenant header not found in response'')
                       else Inr t))
      in case attempt of
           Inl e \<Rightarrow>
             Inl (Exception
               (''Failed to fetch tenant for organization '' @ org_name @ '': '' @ str_exc e))
         | Inr t \<Rightarrow> Inr t)"

definition is_cache_entry_expired ::
  "real \<Rightarrow> OrgTenantCacheEntry \<Rightarrow> py_exception + bool" where
  "is_cache_entry_expired now entry =
     (case refreshed_on entry of
        Millis r \<Rightarrow> Inr (now * 1000 - r > CACHE_TTL_MS)
      | NotANumber \<Rightarrow> Inl (TypeError ''unsupported operand type(s) for -''))"

text \<open>
  The live lookup of \<open>get_org_tenant\<close>: the \<open>try\<close> block and its handler. The result is
  the returned value and the effects in the order they happen.
\<close>

definition lookup_tenant ::
  "tenant_env \<Rightarrow> string \<Rightarrow> (string \<times> OrgTenantCacheEntry) list \<Rightarrow>
   OrgTenantCacheEntry option \<Rightarrow> string option \<times> tenant_event list" where
  "lookup_tenant env org_name cache cached_entry =
     (case fetch_tenant_from_api env org_name of
        Inr t \<Rightarrow>
          (Some t,
           HeadRequest (tenant_url org_name) #
           try_saving_cache env
             (AList.update org_name
                \<lparr>tenant_id = t, refreshed_on = Millis (time_at_store env * 1000)\<rparr> cache))
      | Inl e \<Rightarrow>
          (case cached_entry of
             Some entry \<Rightarrow>
               (Some (tenant_id entry),
                [HeadRequest (tenant_url org_name),
                 Printed (''Failed to fetch fresh tenant for ADO org '' @ org_name @
                          '', using expired cache entry: '' @ str_exc e)])
           | None \<Rightarrow>
               (None,
                [HeadRequest (tenant_url org_name),
                 Printed (''Failed to fetch tenant for ADO org '' @ org_name @ '': '' @
                          str_exc e)])))"

text \<open>
  \<open>Inl\<close> is an exception that reaches the caller; the only one is raised by the expiry
  check, which is outside the \<open>try\<close> block.
\<close>

definition get_org_tenant ::
  "tenant_env \<Rightarrow> string \<Rightarrow> (py_exception + string option) \<times> tenant_event list" where
  "get_org_tenant env org_name =
     (let cache = load_cache env;
          cached_entry = map_of cache org_name
      in case cached_entry of
           None \<Rightarrow>
             (let (r, evs) = lookup_tenant env org_name cache cached_entry in (Inr r, evs))
         | Some entry \<Rightarrow>
             (case is_cache_entry_expired (time_at_check env) entry of
                Inl e \<Rightarrow> (Inl e, [])
              | Inr expired \<Rightarrow>
                  if \<not> expired then (Inr (Some (tenant_id entry)), [])
                  else (let (r, evs) = lookup_tenant env org_name cache cached_entry
                        in (Inr r, evs))))"

section \<open>Authentication (auth.py)\<close>

text \<open>
  The credential objects of the identity library are outside the repository. Their
  \<open>get_token\<close> either raises or returns a token whose value may be missing or empty.
  \<open>default_chain dev tenant\<close> is the default credential chain, \<open>dev\<close> telling whether
  \<open>AZURE_TOKEN_CREDENTIALS\<close> was set to \<open>dev\<close> first and \<open>tenant\<close> the tenant of the
  command-line credential chained in front of it, if any; \<open>interactive_browser\<close> takes
  the authority.
\<close>

record credential_env =
  default_chain :: "bool \<Rightarrow> string option \<Rightarrow> py_exception + string option"
  interactive_browser :: "string \<Rightarrow> py_exception + string option"

definition DEFAULT_AUTHORITY :: string where
  "DEFAULT_AUTHORITY = ''https://login.microsoftonline.com/common''"

definition ZERO_TENANT_ID :: string where
  "ZERO_TENANT_ID = ''00000000-0000-0000-0000-000000000000''"

text \<open>\<open>if x:\<close> on an optional string.\<close>

fun truthy_str :: "string option \<Rightarrow> bool" where
  "truthy_str None = False"
| "truthy_str (Some s) = (s \<noteq> [])"

definition oauth_authority :: "string option \<Rightarrow> string" where
  "oauth_authority tenant =
     (case tenant of
        None \<Rightarrow> DEFAULT_AUTHORITY
      | Some t \<Rightarrow>
          if t \<noteq> [] \<and> t \<noteq> ZERO_TENANT_ID then ''https://login.microsoftonline.com/'' @ t
          else DEFAULT_AUTHORITY)"

definition oauth_get_token :: "credential_env \<Rightarrow> string option \<Rightarrow> py_exception + string" where
  "oauth_get_token env tenant =
     (let attempt =
        (case interactive_browser env (oauth_authority tenant) of
           Inl e \<Rightarrow> Inl e
         | Inr tok \<Rightarrow>
             (case tok of
                None \<Rightarrow> Inl (Exception ''Failed to obtain Azure DevOps OAuth token.'')
              | Some t \<Rightarrow>
                  if t = [] then Inl (Exception ''Failed to obtain Azure DevOps OAuth token.'')
                  else Inr t))
      in case attempt of
           Inl e \<Rightarrow> Inl (Exception (''Failed to obtain Azure DevOps OAuth token: '' @ str_exc e))
         | Inr t \<Rightarrow> Inr t)"

text \<open>
  \<open>create_authenticator\<close> returns the closure \<open>get_token\<close>; the model is that closure as
  a function of the credentials it meets when it is invoked.
\<close>

definition create_authenticator ::
  "string \<Rightarrow> string option \<Rightarrow> string option \<Rightarrow> credential_env \<Rightarrow> py_exception + string" where
  "create_authenticator auth_type tenant pat_token env =
     (if auth_type = ''pat'' then
        (if \<not> truthy_str pat_token
         then Inl (Exception (''PAT token is required for '' @ [CHR 0x27] @ ''pat'' @
                              [CHR 0x27] @ '' authentication''))
         else Inr (the pat_token))
      else if auth_type \<in> set [''azcli'', ''env''] then
        (case default_chain env (auth_type \<noteq> ''env'')
                (if truthy_str tenant then tenant else None) of
           Inr (Some t) \<Rightarrow>
             if t \<noteq> [] then Inr t
             else Inl (Exception (''Failed to obtain Azure DevOps token. '' @
                    ''Ensure you have Azure CLI logged in or use interactive authentication.''))
         | _ \<Rightarrow>
             Inl (Exception (''Failed to obtain Azure DevOps token. '' @
                    ''Ensure you have Azure CLI logged in or use interactive authentication.'')))
      else oauth_get_token env tenant)"

section \<open>The PAT check of the HTTP server (main.py)\<close>








section \<open>Tool operations (tools/*.py)\<close>

subsection \<open>Arguments and results\<close>

text \<open>
  The values of the untyped argument mapping, as the JSON of the request gives them, and
  their truth value in \<open>if not x\<close>.
\<close>

datatype pyval =
    PNone
  | PBool bool
  | PInt int
  | PFloat real
  | PStr string
  | PList "pyval list"
  | PDict "(string \<times> pyval) list"

fun truthy :: "pyval \<Rightarrow> bool" where
  "truthy PNone = False"
| "truthy (PBool b) = b"
| "truthy (PInt i) = (i \<noteq> 0)"
| "truthy (PFloat r) = (r \<noteq> 0)"
| "truthy (PStr s) = (s \<noteq> [])"
| "truthy (PList xs) = (xs \<noteq> [])"
| "truthy (PDict kvs) = (kvs \<noteq> [])"

fun type_name :: "pyval \<Rightarrow> string" where
  "type_name PNone = ''NoneType''"
| "type_name (PBool b) = ''bool''"
| "type_name (PInt i) = ''int''"
| "type_name (PFloat r) = ''float''"
| "type_name (PStr s) = ''str''"
| "type_name (PList xs) = ''list''"
| "type_name (PDict kvs) = ''dict''"

text \<open>The exception of a call of the string method \<open>attr\<close> on a value that is no string.\<close>

definition no_attribute :: "pyval \<Rightarrow> string \<Rightarrow> py_exception" where
  "no_attribute v attr =
     AttributeError ([CHR 0x27] @ type_name v @ [CHR 0x27] @ '' object has no attribute '' @
                     [CHR 0x27] @ attr @ [CHR 0x27])"

type_synonym arguments = "string \<rightharpoonup> pyval"

text \<open>\<open>arguments.get(key)\<close> and \<open>arguments.get(key, default)\<close>.\<close>

definition get_arg :: "arguments \<Rightarrow> string \<Rightarrow> pyval" where
  "get_arg args key = (case args key of None \<Rightarrow> PNone | Some v \<Rightarrow> v)"

definition get_arg_default :: "arguments \<Rightarrow> string \<Rightarrow> pyval \<Rightarrow> pyval" where
  "get_arg_default args key d = (case args key of None \<Rightarrow> d | Some v \<Rightarrow> v)"

record TextContent =
  content_type :: string
  content_text :: string

definition text_result :: "string \<Rightarrow> TextContent list" where
  "text_result t = [\<lparr>content_type = ''text'', content_text = t\<rparr>]"

definition required_error :: "string \<Rightarrow> TextContent list" where
  "required_error argument = text_result (''Error: '' @ argument @ '' parameter is required'')"

text \<open>
  An object of the client library is either one with a \<open>__dict__\<close> or one with only a
  string form; \<open>x.__dict__ if hasattr(x, '__dict__') else str(x)\<close> picks the payload.
\<close>

datatype sdk_object =
    WithDict "(string \<times> pyval) list"
  | Opaque string

fun payload :: "sdk_object \<Rightarrow> pyval" where
  "payload (WithDict d) = PDict d"
| "payload (Opaque s) = PStr s"

record GitRef =
  object_id :: string

record ref_update =
  name :: string
  oldObjectId :: string
  newObjectId :: string

record relation =
  rel :: string
  url :: string

record patch_operation =
  op :: string
  path :: string
  val :: relation

record http_reply =
  status_code :: nat
  reply_text :: string
  reply_json :: "py_exception + pyval"

text \<open>
  What a tool meets outside the repository: the token provider, the client library
  (each call raises or returns), the HTTP library, and the library functions
  \<open>json.dumps\<close> (with \<open>indent=2\<close>), \<open>str\<close> and \<open>urlparse\<close> (network location and path).
\<close>

record tool_env =
  org_url :: string
  token_provider :: "py_exception + string"
  user_agent_provider :: string
  connection :: "string \<Rightarrow> string \<Rightarrow> py_exception option"
  git_client :: "py_exception option"
  get_refs :: "pyval \<Rightarrow> pyval \<Rightarrow> string \<Rightarrow> py_exception + GitRef list"
  update_refs :: "ref_update list \<Rightarrow> pyval \<Rightarrow> pyval \<Rightarrow> py_exception + sdk_object"
  wit_client :: "py_exception option"
  update_work_item :: "patch_operation list \<Rightarrow> pyval \<Rightarrow> py_exception + sdk_object"
  requests_post :: "string \<Rightarrow> pyval \<Rightarrow> (string \<times> string) list \<Rightarrow> py_exception + http_reply"
  json_dumps :: "pyval \<Rightarrow> string"
  py_str :: "pyval \<Rightarrow> string"
  urlparse :: "string \<Rightarrow> string \<times> string"

text \<open>The calls a tool makes outside the repository, in the order it makes them.\<close>

datatype tool_event =
    TokenRequest
  | Connect string string
  | GetGitClient
  | GetRefs pyval pyval string
  | UpdateRefs "ref_update list" pyval pyval
  | GetWitClient
  | UpdateWorkItem "patch_operation list" pyval
  | Post string pyval "(string \<times> string) list"

type_synonym tool_result = "TextContent list \<times> tool_event list"

subsection \<open>The checks of required arguments\<close>

text \<open>
  Every tool starts with reads of \<open>arguments.get\<close> and then, in this order, its checks
  \<open>if not x:\<close> (\<open>Falsy\<close>) or \<open>if x is None:\<close> (\<open>IsNone\<close>), each returning the text
  \<open>Error: x parameter is required\<close>. The table gives, for every tool of the nine modules,
  the argument names and checks in the order of the source.
\<close>

datatype check = Falsy | IsNone

fun fails :: "check \<Rightarrow> pyval \<Rightarrow> bool" where
  "fails Falsy v = (\<not> truthy v)"
| "fails IsNone v = (v = PNone)"

fun first_missing :: "(string \<times> check) list \<Rightarrow> arguments \<Rightarrow> string option" where
  "first_missing [] args = None"
| "first_missing ((a, c) # cs) args =
     (if fails c (get_arg args a) then Some a else first_missing cs args)"

definition required_checks :: "(string \<times> (string \<times> check) list) list" where
  "required_checks =
     [(''core_list_project_teams'',
        [(''project'', Falsy)]),
      (''core_list_projects'',
        []),
      (''core_get_identity_ids'',
        [(''searchFilter'', Falsy)]),
      (''work_list_team_iterations'',
        [(''project'', Falsy), (''team'', Falsy)]),
      (''work_create_iterations'',
        [(''project'', Falsy), (''name'', Falsy), (''path'', Falsy)]),
      (''work_assign_iterations'',
        [(''project'', Falsy), (''team'', Falsy), (''iterationIds'', Falsy)]),
      (''work_get_team_capacity'',
        [(''project'', Falsy), (''team'', Falsy), (''iterationId'', Falsy)]),
      (''pipelines_get_build_definitions'',
        [(''project'', Falsy)]),
      (''pipelines_get_builds'',
        [(''project'', Falsy)]),
      (''pipelines_get_build_changes'',
        [(''project'', Falsy), (''buildId'', Falsy)]),
      (''pipelines_get_build_log'',
        [(''project'', Falsy), (''buildId'', Falsy), (''logId'', Falsy)]),
      (''pipelines_get_build_status'',
        [(''project'', Falsy), (''buildId'', Falsy)]),
      (''pipelines_run_pipeline'',
        [(''project'', Falsy), (''pipelineId'', Falsy)]),
      (''repo_list_repos_by_project'',
        [(''project'', Falsy)]),
      (''repo_get_repo_by_name_or_id'',
        [(''project'', Falsy), (''repositoryId'', Falsy)]),
      (''repo_list_branches_by_repo'',
        [(''project'', Falsy), (''repositoryId'', Falsy)]),
      (''repo_get_branch_by_name'',
        [(''project'', Falsy), (''repositoryId'', Falsy), (''branchName'', Falsy)]),
      (''repo_create_branch'',
        [(''project'', Falsy), (''repositoryId'', Falsy), (''branchName'', Falsy)]),
      (''repo_list_pull_requests_by_repo_or_project'',
        [(''project'', Falsy)]),
      (''repo_get_pull_request_by_id'',
        [(''project'', Falsy), (''repositoryId'', Falsy), (''pullRequestId'', Falsy)]),
      (''repo_create_pull_request'',
        [(''project'', Falsy), (''repositoryId'', Falsy), (''title'', Falsy), (''sourceBranch'', Falsy)]),
      (''repo_update_pull_request'',
        [(''project'', Falsy), (''repositoryId'', Falsy), (''pullRequestId'', Falsy)]),
      (''repo_list_pull_request_threads'',
        [(''project'', Falsy), (''repositoryId'', Falsy), (''pullRequestId'', Falsy)]),
      (''repo_create_pull_request_thread'',
        [(''project'', Falsy), (''repositoryId'', Falsy), (''pullRequestId'', Falsy), (''commentText'', Falsy)]),
      (''repo_reply_to_comment'',
        [(''project'', Falsy), (''repositoryId'', Falsy), (''pullRequestId'', Falsy), (''threadId'', Falsy), (''commentText'', Falsy)]),
      (''repo_resolve_comment'',
        [(''project'', Falsy), (''repositoryId'', Falsy), (''pullRequestId'', Falsy), (''threadId'', Falsy)]),
      (''repo_search_commits'',
        [(''project'', Falsy), (''repositoryId'', Falsy)]),
      (''repo_list_my_branches_by_repo'',
        [(''project'', Falsy), (''repositoryId'', Falsy)]),
      (''repo_list_pull_request_thread_comments'',
        [(''project'', Falsy), (''repositoryId'', Falsy), (''pullRequestId'', Falsy), (''threadId'', Falsy)]),
      (''repo_update_pull_request_reviewers'',
        [(''project'', Falsy), (''repositoryId'', Falsy), (''pullRequestId'', Falsy)]),
      (''repo_list_pull_requests_by_commits'',
        [(''project'', Falsy), (''repositoryId'', Falsy), (''commitIds'', Falsy)]),
      (''wit_list_backlogs'',
        [(''project'', Falsy), (''team'', Falsy)]),
      (''wit_my_work_items'',
        []),
      (''wit_get_work_item'',
        [(''id'', Falsy)]),
      (''wit_create_work_item'',
        [(''project'', Falsy), (''type'', Falsy), (''title'', Falsy)]),
      (''wit_update_work_item'',
        [(''id'', Falsy), (''fields'', Falsy)]),
      (''wit_get_work_items_batch_by_ids'',
        [(''ids'', Falsy)]),
      (''wit_list_work_item_comments'',
        [(''project'', Falsy), (''workItemId'', Falsy)]),
      (''wit_get_work_items_for_iteration'',
        [(''project'', Falsy), (''team'', Falsy), (''iterationPath'', Falsy)]),
      (''wit_add_work_item_comment'',
        [(''project'', Falsy), (''workItemId'', Falsy), (''text'', Falsy)]),
      (''wit_work_items_link'',
        [(''sourceId'', Falsy), (''targetId'', Falsy)]),
      (''wit_work_item_unlink'',
        [(''sourceId'', Falsy), (''targetId'', Falsy)]),
      (''wit_get_work_item_type'',
        [(''project'', Falsy), (''type'', Falsy)]),
      (''wit_get_query'',
        [(''project'', Falsy), (''queryId'', Falsy)]),
      (''wit_get_query_results_by_id'',
        [(''project'', Falsy), (''queryId'', Falsy)]),
      (''wit_update_work_items_batch'',
        [(''project'', Falsy), (''workItems'', Falsy)]),
      (''wit_add_artifact_link'',
        [(''workItemId'', Falsy), (''artifactUri'', Falsy)]),
      (''wit_list_backlog_work_items'',
        [(''project'', Falsy), (''team'', Falsy), (''backlogId'', Falsy)]),
      (''wit_add_child_work_items'',
        [(''parentId'', Falsy), (''childIds'', Falsy)]),
      (''wit_link_work_item_to_pull_request'',
        [(''workItemId'', Falsy), (''pullRequestId'', Falsy), (''repositoryId'', Falsy), (''project'', Falsy)]),
      (''wiki_get_wiki'',
        [(''wikiIdentifier'', Falsy)]),
      (''wiki_list_wikis'',
        [(''project'', Falsy)]),
      (''wiki_list_pages'',
        [(''project'', Falsy), (''wikiIdentifier'', Falsy)]),
      (''wiki_get_page'',
        [(''project'', Falsy), (''wikiIdentifier'', Falsy), (''pagePath'', Falsy)]),
      (''wiki_get_page_content'',
        [(''project'', Falsy), (''wikiIdentifier'', Falsy), (''pagePath'', Falsy)]),
      (''wiki_create_or_update_page'',
        [(''project'', Falsy), (''wikiIdentifier'', Falsy), (''pagePath'', Falsy), (''content'', Falsy)]),
      (''testplan_list_test_plans'',
        [(''project'', Falsy)]),
      (''testplan_create_test_plan'',
        [(''project'', Falsy), (''name'', Falsy), (''iteration'', Falsy)]),
      (''testplan_create_test_suite'',
        [(''project'', Falsy), (''planId'', Falsy), (''suiteName'', Falsy)]),
      (''testplan_create_test_case'',
        [(''project'', Falsy), (''title'', Falsy)]),
      (''search_code'',
        [(''searchText'', Falsy)]),
      (''search_wiki'',
        [(''searchText'', Falsy)]),
      (''search_workitem'',
        [(''searchText'', Falsy)]),
      (''advsec_get_alerts'',
        [(''project'', Falsy), (''repository'', Falsy)]),
      (''advsec_get_alert_details'',
        [(''project'', Falsy), (''repository'', Falsy), (''alertId'', IsNone)])]"

text \<open>
  A tool of the table: its checks, then its body, which is any function of the arguments
  and the environment.
\<close>

definition call_tool ::
  "(arguments \<Rightarrow> tool_env \<Rightarrow> tool_result) \<Rightarrow> (string \<times> check) list \<Rightarrow> arguments \<Rightarrow> tool_env \<Rightarrow>
   tool_result" where
  "call_tool body checks args env =
     (case first_missing checks args of
        Some a \<Rightarrow> (required_error a, [])
      | None \<Rightarrow> body args env)"

subsection \<open>String helpers of the tools\<close>

text \<open>\<open>s.startswith(p)\<close>, \<open>sub in s\<close> and \<open>s.strip(c)\<close> for one character.\<close>

definition startswith :: "string \<Rightarrow> string \<Rightarrow> bool" where
  "startswith s p \<longleftrightarrow> take (length p) s = p"

fun contains :: "string \<Rightarrow> string \<Rightarrow> bool" where
  "contains sub [] = (sub = [])"
| "contains sub (x # xs) = (startswith (x # xs) sub \<or> contains sub xs)"

definition strip_char :: "char \<Rightarrow> string \<Rightarrow> string" where
  "strip_char c s = rev (dropWhile (\<lambda>x. x = c) (rev (dropWhile (\<lambda>x. x = c) s)))"

text \<open>The first piece of \<open>s.split(c)\<close>.\<close>

definition first_piece :: "char \<Rightarrow> string \<Rightarrow> string" where
  "first_piece c s = takeWhile (\<lambda>x. x \<noteq> c) s"

subsection \<open>repo_create_branch (tools/repositories.py)\<close>

definition ZERO_OBJECT_ID :: string where
  "ZERO_OBJECT_ID = ''0000000000000000000000000000000000000000''"

text \<open>\<open>f"refs/heads/{b}" if not b.startswith("refs/") else b\<close>.\<close>

definition qualified_ref :: "string \<Rightarrow> string" where
  "qualified_ref b = (if \<not> startswith b ''refs/'' then ''refs/heads/'' @ b else b)"

text \<open>
  The \<open>try\<close> block after the checks: the text it returns or the exception that ends it,
  with the calls made up to there.
\<close>

definition create_branch_steps ::
  "pyval \<Rightarrow> pyval \<Rightarrow> pyval \<Rightarrow> pyval \<Rightarrow> tool_env \<Rightarrow> (py_exception + string) \<times> tool_event list" where
  "create_branch_steps project repository_id branch_name source_branch env =
     (case token_provider env of
        Inl e \<Rightarrow> (Inl e, [TokenRequest])
      | Inr token \<Rightarrow>
     (case connection env token (org_url env) of
        Some e \<Rightarrow> (Inl e, [TokenRequest, Connect token (org_url env)])
      | None \<Rightarrow>
     (case git_client env of
        Some e \<Rightarrow> (Inl e, [TokenRequest, Connect token (org_url env), GetGitClient])
      | None \<Rightarrow>
     (let evs = [TokenRequest, Connect token (org_url env), GetGitClient]
      in case source_branch of
           PStr sb \<Rightarrow>
             (let source_ref_name = qualified_ref sb;
                  evs1 = evs @ [GetRefs project repository_id source_ref_name]
              in case get_refs env project repository_id source_ref_name of
                   Inl e \<Rightarrow> (Inl e, evs1)
                 | Inr [] \<Rightarrow>
                     (Inr (''Source branch '' @ [CHR 0x27] @ sb @ [CHR 0x27] @ '' not found''),
                      evs1)
                 | Inr (source_ref # others) \<Rightarrow>
                     (case branch_name of
                        PStr bn \<Rightarrow>
                          (let update =
                                 \<lparr>name = qualified_ref bn,
                                  oldObjectId = ZERO_OBJECT_ID,
                                  newObjectId = object_id source_ref\<rparr>;
                               evs2 = evs1 @ [UpdateRefs [update] project repository_id]
                           in case update_refs env [update] project repository_id of
                                Inl e \<Rightarrow> (Inl e, evs2)
                              | Inr result \<Rightarrow>
                                  (Inr (json_dumps env (PDict
                                     [(''message'',
                                       PStr (''Branch '' @ [CHR 0x27] @ bn @ [CHR 0x27] @
                                             '' created successfully'')),
                                      (''sourceBranch'', source_branch),
                                      (''newBranch'', branch_name),
                                      (''result'', payload result)])),
                                   evs2))
                      | _ \<Rightarrow> (Inl (no_attribute branch_name ''startswith''), evs1)))
         | _ \<Rightarrow> (Inl (no_attribute source_branch ''startswith''), evs)))))"

definition repo_create_branch :: "arguments \<Rightarrow> tool_env \<Rightarrow> tool_result" where
  "repo_create_branch args env =
     (let project = get_arg args ''project'';
          repository_id = get_arg args ''repositoryId'';
          branch_name = get_arg args ''branchName'';
          source_branch = get_arg_default args ''sourceBranch'' (PStr ''main'')
      in if \<not> truthy project then (required_error ''project'', [])
         else if \<not> truthy repository_id then (required_error ''repositoryId'', [])
         else if \<not> truthy branch_name then (required_error ''branchName'', [])
         else (case create_branch_steps project repository_id branch_name source_branch env of
                 (Inr t, evs) \<Rightarrow> (text_result t, evs)
               | (Inl e, evs) \<Rightarrow> (text_result (''Error creating branch: '' @ str_exc e), evs)))"

subsection \<open>wit_work_items_link (tools/work_items.py)\<close>

definition link_types :: "(string \<times> string) list" where
  "link_types =
     [(''parent'', ''System.LinkTypes.Hierarchy-Reverse''),
      (''child'', ''System.LinkTypes.Hierarchy-Forward''),
      (''duplicate'', ''System.LinkTypes.Duplicate-Forward''),
      (''duplicate of'', ''System.LinkTypes.Duplicate-Reverse''),
      (''related'', ''System.LinkTypes.Related''),
      (''successor'', ''System.LinkTypes.Dependency-Forward''),
      (''predecessor'', ''System.LinkTypes.Dependency-Reverse''),
      (''tested by'', ''Microsoft.VSTS.Common.TestedBy-Forward''),
      (''tests'', ''Microsoft.VSTS.Common.TestedBy-Reverse''),
      (''affects'', ''Microsoft.VSTS.Common.Affects-Forward''),
      (''affected by'', ''Microsoft.VSTS.Common.Affects-Reverse''),
      (''artifact'', ''ArtifactLink'')]"

text \<open>\<open>link_types.get(name.lower(), name)\<close>.\<close>

definition get_link_type_from_name :: "string \<Rightarrow> string" where
  "get_link_type_from_name link_name =
     (case map_of link_types (lower link_name) of
        None \<Rightarrow> link_name
      | Some t \<Rightarrow> t)"

text \<open>
  The handlers of the inner and the outer \<open>try\<close>: an \<open>AttributeError\<close> of the inner block
  gives the placeholder answer, any other exception the error text.
\<close>

definition link_failed ::
  "pyval \<Rightarrow> pyval \<Rightarrow> pyval \<Rightarrow> tool_env \<Rightarrow> py_exception \<Rightarrow> TextContent list" where
  "link_failed source_id target_id link_type env e =
     (if is_AttributeError e
      then text_result (json_dumps env (PDict
             [(''message'', PStr ''Work items linking requested''),
              (''sourceId'', source_id),
              (''targetId'', target_id),
              (''linkType'', link_type),
              (''note'', PStr (''Work Item Tracking API requires additional '' @
                               ''Azure DevOps SDK configuration''))]))
      else text_result (''Error linking work items: '' @ str_exc e))"

definition link_patch :: "tool_env \<Rightarrow> string \<Rightarrow> pyval \<Rightarrow> patch_operation list" where
  "link_patch env link_type target_id =
     [\<lparr>op = ''add'',
       path = ''/relations/-'',
       val = \<lparr>rel = get_link_type_from_name link_type,
              url = org_url env @ ''/_apis/wit/workItems/'' @ py_str env target_id\<rparr>\<rparr>]"

definition wit_work_items_link :: "arguments \<Rightarrow> tool_env \<Rightarrow> tool_result" where
  "wit_work_items_link args env =
     (let source_id = get_arg args ''sourceId'';
          target_id = get_arg args ''targetId'';
          link_type = get_arg_default args ''linkType'' (PStr ''related'')
      in if \<not> truthy source_id then (required_error ''sourceId'', [])
         else if \<not> truthy target_id then (required_error ''targetId'', [])
         else
           (case token_provider env of
              Inl e \<Rightarrow> (text_result (''Error linking work items: '' @ str_exc e), [TokenRequest])
            | Inr token \<Rightarrow>
           (case connection env token (org_url env) of
              Some e \<Rightarrow>
                (text_result (''Error linking work items: '' @ str_exc e),
                 [TokenRequest, Connect token (org_url env)])
            | None \<Rightarrow>
           (let evs = [TokenRequest, Connect token (org_url env), GetWitClient]
            in case wit_client env of
                 Some e \<Rightarrow> (link_failed source_id target_id link_type env e, evs)
               | None \<Rightarrow>
                   (case link_type of
                      PStr lt \<Rightarrow>
                        (let patch = link_patch env lt target_id;
                             evs1 = evs @ [UpdateWorkItem patch source_id]
                         in case update_work_item env patch source_id of
                              Inl e \<Rightarrow> (link_failed source_id target_id link_type env e, evs1)
                            | Inr updated \<Rightarrow>
                                (text_result (json_dumps env (payload updated)), evs1))
                    | _ \<Rightarrow>
                        (link_failed source_id target_id link_type env
                           (no_attribute link_type ''lower''), evs))))))"

subsection \<open>search_code (tools/search.py)\<close>

definition get_org_name_from_url :: "tool_env \<Rightarrow> string \<Rightarrow> string" where
  "get_org_name_from_url env u =
     (let (netloc, parsed_path) = urlparse env u
      in if contains ''dev.azure.com'' netloc then strip_char CHR ''/'' parsed_path
         else if contains ''visualstudio.com'' netloc then first_piece CHR ''.'' netloc
         else if parsed_path \<noteq> [] then first_piece CHR ''/'' (strip_char CHR ''/'' parsed_path)
         else ''unknown'')"

text \<open>\<open>filters[key] = v if isinstance(v, list) else [v]\<close>, only when \<open>v\<close> is truthy.\<close>

definition filter_entry :: "string \<Rightarrow> pyval \<Rightarrow> (string \<times> pyval) list" where
  "filter_entry key v =
     (if truthy v then [(key, (case v of PList xs \<Rightarrow> v | _ \<Rightarrow> PList [v]))] else [])"

definition search_code :: "arguments \<Rightarrow> tool_env \<Rightarrow> tool_result" where
  "search_code args env =
     (let search_text = get_arg args ''searchText'';
          project = get_arg_default args ''project'' (PList []);
          repository = get_arg_default args ''repository'' (PList []);
          file_path = get_arg_default args ''path'' (PList []);
          branch = get_arg_default args ''branch'' (PList []);
          include_facets = get_arg_default args ''includeFacets'' (PBool False);
          skip = get_arg_default args ''skip'' (PInt 0);
          top = get_arg_default args ''top'' (PInt 5)
      in if \<not> truthy search_text then (required_error ''searchText'', [])
         else
           (case token_provider env of
              Inl e \<Rightarrow> (text_result (''Error searching code: '' @ str_exc e), [TokenRequest])
            | Inr token \<Rightarrow>
           (let org_name = get_org_name_from_url env (org_url env);
                target = ''https://almsearch.dev.azure.com/'' @ org_name @
                         ''/_apis/search/codesearchresults?api-version=6.0-preview.1'';
                filters = filter_entry ''Project'' project @ filter_entry ''Repository'' repository @
                          filter_entry ''Path'' file_path @ filter_entry ''Branch'' branch;
                request_body = PDict
                  ([(''searchText'', search_text),
                    (''includeFacets'', include_facets),
                    (''$skip'', skip),
                    (''$top'', top)] @
                   (if filters \<noteq> [] then [(''filters'', PDict filters)] else []));
                headers = [(''Authorization'', ''Bearer '' @ token),
                           (''Content-Type'', ''application/json''),
                           (''User-Agent'', user_agent_provider env)];
                evs = [TokenRequest, Post target request_body headers]
            in case requests_post env target request_body headers of
                 Inl e \<Rightarrow> (text_result (''Error searching code: '' @ str_exc e), evs)
               | Inr response \<Rightarrow>
                   if status_code response = 200
                   then (case reply_json response of
                           Inl e \<Rightarrow> (text_result (''Error searching code: '' @ str_exc e), evs)
                         | Inr results \<Rightarrow> (text_result (json_dumps env results), evs))
                   else (text_result (''Error searching code: HTTP '' @
                                      str_nat (status_code response) @ '' - '' @
                                      reply_text response), evs))))"

section \<open>Concrete environments\<close>

text \<open>
  A machine without network whose cache file and clock are given, and a machine on which
  no credential source answers; the examples below run on them.
\<close>

definition offline_tenant_env ::
  "(string \<times> OrgTenantCacheEntry) list option \<Rightarrow> real \<Rightarrow> tenant_env" where
  "offline_tenant_env file now =
     \<lparr>cache_file = file, time_at_check = now, time_at_store = now,
      http_head = (\<lambda>u. Inl (Exception ''Cannot connect to host'')),
      write_cache_file = (\<lambda>c. None)\<rparr>"

definition no_credentials :: credential_env where
  "no_credentials =
     \<lparr>default_chain = (\<lambda>dev tenant. Inl (Exception ''no credential available'')),
      interactive_browser = (\<lambda>authority. Inl (Exception ''no browser available''))\<rparr>"

text \<open>The exception of the PAT branch of \<open>get_token\<close>.\<close>

definition pat_required :: py_exception where
  "pat_required =
     Exception (''PAT token is required for '' @ [CHR 0x27] @ ''pat'' @ [CHR 0x27] @
                '' authentication'')"

text \<open>
  A server for the examples: the token provider and every call of the client library
  succeed, the repository has the single branch \<open>main\<close>, the search service cannot be
  reached; \<open>json_dumps\<close> and \<open>py_str\<close> are stand-ins that print strings only.
\<close>

definition sample_env :: tool_env where
  "sample_env =
     \<lparr>org_url = ''https://dev.azure.com/contoso'',
      token_provider = Inr ''token'',
      user_agent_provider = ''AzureDevOps.MCP/2.2.1 (python)'',
      connection = (\<lambda>token u. None),
      git_client = None,
      get_refs = (\<lambda>project repository ref_filter.
         if ref_filter = ''refs/heads/main''
         then Inr [\<lparr>object_id = ''5f2a9c0e5f2a9c0e5f2a9c0e5f2a9c0e5f2a9c0e''\<rparr>]
         else Inr []),
      update_refs = (\<lambda>updates project repository. Inr (Opaque ''GitRefUpdateResult'')),
      wit_client = None,
      update_work_item = (\<lambda>document work_item. Inr (Opaque ''WorkItem'')),
      requests_post = (\<lambda>target body headers. Inl (Exception ''Cannot connect to host'')),
      json_dumps = (\<lambda>v. case v of PStr s \<Rightarrow> s | _ \<Rightarrow> ''{...}''),
      py_str = (\<lambda>v. case v of PStr s \<Rightarrow> s | _ \<Rightarrow> ''...''),
      urlparse = (\<lambda>u. (''dev.azure.com'', ''/contoso''))\<rparr>"

section \<open>Properties of the domains manager\<close>

lemma enabled_enable_all:
  "enabled_domains (enable_all_domains m) = enabled_domains m \<union> set available_domains"
  by (auto simp: enable_all_domains_def Domain_members_def available_domains_def)


lemma enabled_validate_step:
  "enabled_domains (validate_step d m) =
     (if d \<in> set available_domains then insert d (enabled_domains m)
      else if d = ALL_DOMAINS then enabled_domains m \<union> set available_domains
      else enabled_domains m)"
  by (simp add: validate_step_def enabled_enable_all)



lemma fold_validate_subset:
  "enabled_domains (fold validate_step ds m) \<subseteq> enabled_domains m \<union> set available_domains"
proof (induction ds arbitrary: m)
  case Nil
  show ?case by simp
next
  case (Cons d ds)
  have "enabled_domains (fold validate_step ds (validate_step d m))
          \<subseteq> enabled_domains (validate_step d m) \<union> set available_domains"
    by (rule Cons.IH)
  also have "\<dots> \<subseteq> enabled_domains m \<union> set available_domains"
    by (auto simp: enabled_validate_step split: if_splits)
  finally show ?case by simp
qed





lemma enabled_validate_and_add:
  "enabled_domains (validate_and_add_domains ds m) =
     (if enabled_domains (fold validate_step ds m) = {} then set available_domains
      else enabled_domains (fold validate_step ds m))"
  by (simp add: validate_and_add_domains_def Let_def enabled_enable_all)

lemma available_nonempty: "set available_domains \<noteq> {}"
  by (simp add: available_domains_def Domain_members_def)

lemma available_nine: "length available_domains = 9 \<and> distinct available_domains"
  by (simp add: available_domains_def Domain_members_def)


lemma new_manager_subset:
  "enabled_domains (new_DomainsManager inp) \<subseteq> set available_domains"
proof -
  have v: "enabled_domains (validate_and_add_domains ds \<lparr>enabled_domains = {}, printed = []\<rparr>)
             \<subseteq> set available_domains" for ds
    using fold_validate_subset [of ds "\<lparr>enabled_domains = {}, printed = []\<rparr>"]
    by (auto simp: enabled_validate_and_add)
  show ?thesis
    by (cases inp)
      (use v in \<open>auto simp: new_DomainsManager_def handle_string_input_def handle_array_input_def
         enabled_enable_all\<close>)
qed

lemma new_manager_nonempty: "enabled_domains (new_DomainsManager inp) \<noteq> {}"
proof -
  have v: "enabled_domains (validate_and_add_domains ds \<lparr>enabled_domains = {}, printed = []\<rparr>) \<noteq> {}"
    for ds
    using available_nonempty by (simp add: enabled_validate_and_add)
  have a: "enabled_domains (enable_all_domains \<lparr>enabled_domains = {}, printed = []\<rparr>) \<noteq> {}"
    using available_nonempty by (simp add: enabled_enable_all)
  show ?thesis
    by (cases inp)
      (use v a in \<open>auto simp: new_DomainsManager_def handle_string_input_def handle_array_input_def\<close>)
qed






text \<open>
  Claim C10. Whatever the constructor input (absent, a string, a list of strings), the
  enabled set is a non-empty subset of the nine distinct domain values, so
  \<open>is_domain_enabled\<close> is false for every other string.
\<close>

theorem enabled_domains_invariant:
  "enabled_domains (new_DomainsManager inp) \<noteq> {} \<and>
   enabled_domains (new_DomainsManager inp) \<subseteq> set available_domains \<and>
   length available_domains = 9 \<and> distinct available_domains \<and>
   (\<forall>d. d \<notin> set available_domains \<longrightarrow> \<not> is_domain_enabled (new_DomainsManager inp) d)"
  using new_manager_subset [of inp] new_manager_nonempty [of inp] available_nine
  by (auto simp: is_domain_enabled_def)

theorem enabled_domains_invariant_witness:
  "''bogus'' \<notin> set available_domains \<and>
   \<not> is_domain_enabled (new_DomainsManager (StrInput ''core, bogus'')) ''bogus'' \<and>
   enabled_domains (new_DomainsManager (StrInput ''core, bogus'')) \<noteq> {}"
  using enabled_domains_invariant [of "StrInput ''core, bogus''"]
  by (simp add: available_domains_def Domain_members_def)

section \<open>Properties of the user agent composer\<close>

lemma append_appended:
  "mcp_client_info_appended c \<Longrightarrow> append_mcp_client_info c i = c"
  by (cases i) simp_all

lemma append_sets_flag:
  "user_agent (append_mcp_client_info c i) \<noteq> user_agent c \<Longrightarrow>
   mcp_client_info_appended (append_mcp_client_info c i)"
  by (cases i) (auto split: if_splits)

lemma changes_appended:
  "mcp_client_info_appended c \<Longrightarrow> user_agent_changes c is = 0"
  by (induction "is") (simp_all add: append_appended)

lemma append_twice:
  "append_mcp_client_info (append_mcp_client_info c i) i = append_mcp_client_info c i"
  by (cases i) auto

lemma changes_at_most_once: "user_agent_changes c is \<le> 1"
proof (induction "is" arbitrary: c)
  case Nil
  show ?case by simp
next
  case (Cons k ks)
  show ?case
  proof (cases "user_agent (append_mcp_client_info c k) = user_agent c")
    case True
    then show ?thesis using Cons.IH by simp
  next
    case False
    then have "mcp_client_info_appended (append_mcp_client_info c k)"
      by (rule append_sets_flag)
    then show ?thesis using False by (simp add: changes_appended)
  qed
qed

text \<open>
  Claim C9. For every composer and client info: a second call with the same info leaves
  the string of the first call; over any sequence of calls the string changes at most
  once; a call with no info, an empty name or an empty version changes nothing.
\<close>

theorem append_mcp_client_info_once:
  "user_agent (append_mcp_client_info (append_mcp_client_info c i) i) =
     user_agent (append_mcp_client_info c i) \<and>
   user_agent_changes c is \<le> 1 \<and>
   append_mcp_client_info c None = c \<and>
   (client_name info = [] \<or> client_version info = [] \<longrightarrow>
      append_mcp_client_info c (Some info) = c)"
  using changes_at_most_once [of c "is"] by (auto simp: append_twice)

theorem append_mcp_client_info_once_witness:
  "user_agent (append_all (new_UserAgentComposer ''2.2.1'')
      [Some \<lparr>client_name = ''vscode'', client_version = ''1.0''\<rparr>,
       Some \<lparr>client_name = ''vscode'', client_version = ''1.0''\<rparr>])
     = ''AzureDevOps.MCP/2.2.1 (python) vscode/1.0'' \<and>
   user_agent_changes (new_UserAgentComposer ''2.2.1'')
      [Some \<lparr>client_name = ''vscode'', client_version = ''1.0''\<rparr>,
       Some \<lparr>client_name = ''other'', client_version = ''2''\<rparr>] \<le> 1 \<and>
   append_mcp_client_info (new_UserAgentComposer ''2.2.1'')
      (Some \<lparr>client_name = [], client_version = ''1.0''\<rparr>) = new_UserAgentComposer ''2.2.1''"
  using append_mcp_client_info_once [of "new_UserAgentComposer ''2.2.1''"
      "Some \<lparr>client_name = ''vscode'', client_version = ''1.0''\<rparr>"
      "[Some \<lparr>client_name = ''vscode'', client_version = ''1.0''\<rparr>,
        Some \<lparr>client_name = ''other'', client_version = ''2''\<rparr>]"
      "\<lparr>client_name = [], client_version = ''1.0''\<rparr>"]
  by (simp add: new_UserAgentComposer_def)

section \<open>Properties of the tenant cache\<close>



lemma lookup_tenant_failed:
  "fetch_tenant_from_api env org_name = Inl e \<Longrightarrow>
   fst (lookup_tenant env org_name cache ce) = map_option tenant_id ce"
  by (auto simp: lookup_tenant_def split: option.splits)



lemma offline_fetch:
  "fetch_tenant_from_api (offline_tenant_env file now) org =
     Inl (Exception (''Failed to fetch tenant for organization '' @ org @
                     '': Cannot connect to host''))"
  by (simp add: fetch_tenant_from_api_def offline_tenant_env_def)

text \<open>
  Claim C5. When the live lookup fails, \<open>get_org_tenant\<close> returns the tenant id of the
  cache entry of the organization if there is one, expired or not, and \<open>None\<close> if there is
  none; whenever the lookup was attempted and failed the result is a value, never an
  exception.
\<close>

theorem lookup_failure_falls_back:
  assumes "fetch_tenant_from_api env org_name = Inl e"
  shows "(\<forall>entry r. map_of (load_cache env) org_name = Some entry \<and> refreshed_on entry = Millis r \<longrightarrow>
            fst (get_org_tenant env org_name) = Inr (Some (tenant_id entry))) \<and>
         (map_of (load_cache env) org_name = None \<longrightarrow>
            get_org_tenant env org_name =
              (Inr None,
               [HeadRequest (tenant_url org_name),
                Printed (''Failed to fetch tenant for ADO org '' @ org_name @ '': '' @ str_exc e)])) \<and>
         (HeadRequest (tenant_url org_name) \<in> set (snd (get_org_tenant env org_name)) \<longrightarrow>
            fst (get_org_tenant env org_name) =
              Inr (map_option tenant_id (map_of (load_cache env) org_name)))"
proof (intro conjI impI allI)
  fix entry r
  assume "map_of (load_cache env) org_name = Some entry \<and> refreshed_on entry = Millis r"
  then show "fst (get_org_tenant env org_name) = Inr (Some (tenant_id entry))"
    using assms
    by (simp add: get_org_tenant_def is_cache_entry_expired_def Let_def lookup_tenant_def)
next
  assume "map_of (load_cache env) org_name = None"
  then show "get_org_tenant env org_name =
      (Inr None,
       [HeadRequest (tenant_url org_name),
        Printed (''Failed to fetch tenant for ADO org '' @ org_name @ '': '' @ str_exc e)])"
    using assms by (simp add: get_org_tenant_def Let_def lookup_tenant_def)
next
  assume h: "HeadRequest (tenant_url org_name) \<in> set (snd (get_org_tenant env org_name))"
  show "fst (get_org_tenant env org_name) =
          Inr (map_option tenant_id (map_of (load_cache env) org_name))"
  proof (cases "map_of (load_cache env) org_name")
    case None
    then show ?thesis
      using assms by (simp add: get_org_tenant_def Let_def lookup_tenant_def)
  next
    case (Some entry)
    show ?thesis
    proof (cases "refreshed_on entry")
      case (Millis r)
      with Some assms show ?thesis
        by (simp add: get_org_tenant_def is_cache_entry_expired_def Let_def lookup_tenant_def)
    next
      case NotANumber
      with Some h show ?thesis
        by (simp add: get_org_tenant_def is_cache_entry_expired_def Let_def)
    qed
  qed
qed

theorem lookup_failure_falls_back_witness:
  "fst (get_org_tenant
     (offline_tenant_env (Some [(''contoso'', \<lparr>tenant_id = ''t-1'', refreshed_on = Millis 0\<rparr>)])
        700000)
     ''contoso'') = Inr (Some ''t-1'') \<and>
   HeadRequest (tenant_url ''contoso'') \<in> set (snd (get_org_tenant
     (offline_tenant_env (Some [(''contoso'', \<lparr>tenant_id = ''t-1'', refreshed_on = Millis 0\<rparr>)])
        700000)
     ''contoso'')) \<and>
   fst (get_org_tenant (offline_tenant_env None 700000) ''contoso'') = Inr None"
proof -
  let ?e = "\<lparr>tenant_id = ''t-1'', refreshed_on = Millis 0\<rparr>"
  let ?env = "offline_tenant_env (Some [(''contoso'', ?e)]) 700000"
  have 1: "map_of (load_cache ?env) ''contoso'' = Some ?e \<and> refreshed_on ?e = Millis 0"
    by (simp add: load_cache_def offline_tenant_env_def)
  have 2: "map_of (load_cache (offline_tenant_env None 700000)) ''contoso'' = None"
    by (simp add: load_cache_def offline_tenant_env_def)
  have 3: "HeadRequest (tenant_url ''contoso'') \<in> set (snd (get_org_tenant ?env ''contoso''))"
    by (simp add: get_org_tenant_def is_cache_entry_expired_def Let_def lookup_tenant_def
        fetch_tenant_from_api_def load_cache_def CACHE_TTL_MS_def offline_tenant_env_def)
  note f1 = offline_fetch [of "Some [(''contoso'', ?e)]" 700000 "''contoso''"]
  note f2 = offline_fetch [of None 700000 "''contoso''"]
  show ?thesis
    using lookup_failure_falls_back [OF f1] lookup_failure_falls_back [OF f2] 1 2 3
    by simp
qed

section \<open>Properties of the authenticator\<close>

text \<open>
  Claim C6, amended. The token provider of type \<open>pat\<close> raises the exception saying that
  a PAT token is required when no token or the empty string was supplied, and returns
  exactly the supplied token when it is not empty. As stated, for every supplied string,
  the claim fails at the empty string, which \<open>not pat_token\<close> treats as absent.
\<close>

theorem pat_token_provider:
  "create_authenticator ''pat'' tenant None env = Inl pat_required \<and>
   create_authenticator ''pat'' tenant (Some []) env = Inl pat_required \<and>
   (t \<noteq> [] \<longrightarrow> create_authenticator ''pat'' tenant (Some t) env = Inr t)"
  by (simp add: create_authenticator_def pat_required_def)

theorem pat_token_provider_witness:
  "create_authenticator ''pat'' None (Some ''abc123pat'') no_credentials = Inr ''abc123pat'' \<and>
   create_authenticator ''pat'' None None no_credentials = Inl pat_required"
  using pat_token_provider [of None no_credentials "''abc123pat''"] by simp

theorem empty_pat_token_counterexample:
  "create_authenticator ''pat'' None (Some '''') no_credentials \<noteq> Inr '''' \<and>
   create_authenticator ''pat'' None (Some '''') no_credentials = Inl pat_required"
  by (simp add: create_authenticator_def pat_required_def)

section \<open>Properties of the PAT check\<close>














section \<open>Properties of the tool operations\<close>

lemma absent_fails: "args a = None \<Longrightarrow> fails c (get_arg args a)"
  by (cases c) (simp_all add: get_arg_def)

lemma first_missing_Some:
  "(a, c) \<in> set cs \<Longrightarrow> fails c (get_arg args a) \<Longrightarrow> \<exists>b. first_missing cs args = Some b"
  by (induction cs) auto

lemma first_missing_fails:
  "first_missing cs args = Some b \<Longrightarrow> \<exists>c. (b, c) \<in> set cs \<and> fails c (get_arg args b)"
  by (induction cs) (auto split: if_splits)

lemma repo_create_branch_checks:
  "first_missing [(''project'', Falsy), (''repositoryId'', Falsy), (''branchName'', Falsy)] args
     = Some b \<Longrightarrow>
   repo_create_branch args env = (required_error b, [])"
  by (auto simp: repo_create_branch_def Let_def split: if_splits)

lemma search_code_checks:
  "first_missing [(''searchText'', Falsy)] args = Some b \<Longrightarrow>
   search_code args env = (required_error b, [])"
  by (auto simp: search_code_def Let_def split: if_splits)

lemma wit_work_items_link_checks:
  "first_missing [(''sourceId'', Falsy), (''targetId'', Falsy)] args = Some b \<Longrightarrow>
   wit_work_items_link args env = (required_error b, [])"
  by (auto simp: wit_work_items_link_def Let_def split: if_splits)

lemma table_repo_create_branch:
  "(''repo_create_branch'', checks) \<in> set required_checks \<Longrightarrow>
   checks = [(''project'', Falsy), (''repositoryId'', Falsy), (''branchName'', Falsy)]"
  by (simp add: required_checks_def)

lemma table_search_code:
  "(''search_code'', checks) \<in> set required_checks \<Longrightarrow> checks = [(''searchText'', Falsy)]"
  by (simp add: required_checks_def)

lemma table_wit_work_items_link:
  "(''wit_work_items_link'', checks) \<in> set required_checks \<Longrightarrow>
   checks = [(''sourceId'', Falsy), (''targetId'', Falsy)]"
  by (simp add: required_checks_def)

text \<open>
  Claim C2. For every tool of the table and every argument it checks: when that
  argument is absent from the argument mapping, the tool returns exactly one text block
  \<open>Error: b parameter is required\<close> and makes no call outside (no token is requested,
  the remote service is not contacted). Here \<open>b\<close> is the first argument in the order of
  the checks that fails its check; it is the absent argument itself when every other
  required argument passes. The same holds of the three tools modelled in full.
\<close>

theorem missing_required_argument:
  assumes tool: "(tool, checks) \<in> set required_checks"
    and arg: "(a, c) \<in> set checks"
    and absent: "args a = None"
  shows "\<exists>b c'. (b, c') \<in> set checks \<and> fails c' (get_arg args b) \<and>
           first_missing checks args = Some b \<and>
           ((\<forall>(x, y)\<in>set checks. x \<noteq> a \<longrightarrow> \<not> fails y (get_arg args x)) \<longrightarrow> b = a) \<and>
           call_tool body checks args env = (required_error b, []) \<and>
           (tool = ''repo_create_branch'' \<longrightarrow> repo_create_branch args env = (required_error b, [])) \<and>
           (tool = ''search_code'' \<longrightarrow> search_code args env = (required_error b, [])) \<and>
           (tool = ''wit_work_items_link'' \<longrightarrow>
              wit_work_items_link args env = (required_error b, []))"
proof -
  from arg absent obtain b where b: "first_missing checks args = Some b"
    using first_missing_Some absent_fails by blast
  then obtain c' where c': "(b, c') \<in> set checks" "fails c' (get_arg args b)"
    using first_missing_fails by blast
  have only: "b = a" if "\<forall>(x, y)\<in>set checks. x \<noteq> a \<longrightarrow> \<not> fails y (get_arg args x)"
    using that c' by auto
  have call: "call_tool body checks args env = (required_error b, [])"
    by (simp add: call_tool_def b)
  have 1: "repo_create_branch args env = (required_error b, [])" if "tool = ''repo_create_branch''"
    using that tool b table_repo_create_branch [of checks] repo_create_branch_checks by simp
  have 2: "search_code args env = (required_error b, [])" if "tool = ''search_code''"
    using that tool b table_search_code [of checks] search_code_checks by simp
  have 3: "wit_work_items_link args env = (required_error b, [])" if "tool = ''wit_work_items_link''"
    using that tool b table_wit_work_items_link [of checks] wit_work_items_link_checks by simp
  show ?thesis
    using b c' only call 1 2 3 by blast
qed

theorem missing_required_argument_witness:
  "repo_create_branch [''project'' \<mapsto> PStr ''Fabrikam'', ''branchName'' \<mapsto> PStr ''topic''] sample_env =
     (required_error ''repositoryId'', [])"
proof -
  let ?args = "[''project'' \<mapsto> PStr ''Fabrikam'', ''branchName'' \<mapsto> PStr ''topic'']"
  let ?checks = "[(''project'', Falsy), (''repositoryId'', Falsy), (''branchName'', Falsy)]"
  have t: "(''repo_create_branch'', ?checks) \<in> set required_checks"
    by (simp add: required_checks_def)
  have a: "(''repositoryId'', Falsy) \<in> set ?checks" by simp
  have n: "?args ''repositoryId'' = None" by simp
  have o: "\<forall>(x, y)\<in>set ?checks. x \<noteq> ''repositoryId'' \<longrightarrow> \<not> fails y (get_arg ?args x)"
    by (simp add: get_arg_def)
  from missing_required_argument [where tool = "''repo_create_branch''" and checks = ?checks
      and a = "''repositoryId''" and c = Falsy and args = ?args and body = "\<lambda>a e. ([], [])"
      and env = sample_env, OF t a n] o
  show ?thesis by auto
qed

lemma zero_object_id: "ZERO_OBJECT_ID = replicate 40 CHR ''0''"
  by (simp add: ZERO_OBJECT_ID_def eval_nat_numeral)

lemma default_source_branch:
  "args ''sourceBranch'' = None \<Longrightarrow>
   repo_create_branch args env = repo_create_branch (args(''sourceBranch'' \<mapsto> PStr ''main'')) env"
  by (simp add: repo_create_branch_def get_arg_def get_arg_default_def)

lemma create_branch_steps_update:
  assumes "UpdateRefs us p r \<in> set (snd (create_branch_steps project repository_id bn sb env))"
  shows "\<exists>source_name branch source_ref others.
           sb = PStr source_name \<and> bn = PStr branch \<and>
           get_refs env project repository_id (qualified_ref source_name)
             = Inr (source_ref # others) \<and>
           us = [\<lparr>name = qualified_ref branch, oldObjectId = ZERO_OBJECT_ID,
                  newObjectId = object_id source_ref\<rparr>] \<and>
           p = project \<and> r = repository_id"
  using assms
  by (auto simp: create_branch_steps_def Let_def
      split: sum.splits option.splits pyval.splits list.splits)

lemma sample_create_branch:
  "repo_create_branch
     [''project'' \<mapsto> PStr ''Fabrikam'', ''repositoryId'' \<mapsto> PStr ''web'',
      ''branchName'' \<mapsto> PStr ''topic''] sample_env =
   (text_result ''{...}'',
    [TokenRequest, Connect ''token'' ''https://dev.azure.com/contoso'', GetGitClient,
     GetRefs (PStr ''Fabrikam'') (PStr ''web'') ''refs/heads/main'',
     UpdateRefs
       [\<lparr>name = ''refs/heads/topic'',
         oldObjectId = ''0000000000000000000000000000000000000000'',
         newObjectId = ''5f2a9c0e5f2a9c0e5f2a9c0e5f2a9c0e5f2a9c0e''\<rparr>]
       (PStr ''Fabrikam'') (PStr ''web'')])"
  by (simp add: repo_create_branch_def get_arg_def get_arg_default_def create_branch_steps_def
      sample_env_def qualified_ref_def startswith_def ZERO_OBJECT_ID_def Let_def)

text \<open>
  Claim C7. In \<open>repo_create_branch\<close> an absent \<open>sourceBranch\<close> behaves as
  \<open>main\<close>, and every ref update sent to the git client is the single update of the new
  ref from the object id of 40 zeros to the object id of the first ref found for the
  source branch, whatever that branch is.
\<close>

theorem create_branch_ref_update:
  "(args ''sourceBranch'' = None \<longrightarrow>
      repo_create_branch args env =
        repo_create_branch (args(''sourceBranch'' \<mapsto> PStr ''main'')) env) \<and>
   (\<forall>us p r. UpdateRefs us p r \<in> set (snd (repo_create_branch args env)) \<longrightarrow>
      (\<exists>source_name branch source_ref others.
         get_arg_default args ''sourceBranch'' (PStr ''main'') = PStr source_name \<and>
         get_arg args ''branchName'' = PStr branch \<and>
         get_refs env (get_arg args ''project'') (get_arg args ''repositoryId'')
           (qualified_ref source_name) = Inr (source_ref # others) \<and>
         us = [\<lparr>name = qualified_ref branch,
                oldObjectId = ''0000000000000000000000000000000000000000'',
                newObjectId = object_id source_ref\<rparr>] \<and>
         p = get_arg args ''project'' \<and> r = get_arg args ''repositoryId'')) \<and>
   length ''0000000000000000000000000000000000000000'' = 40"
proof (intro conjI impI allI)
  assume "args ''sourceBranch'' = None"
  then show "repo_create_branch args env =
      repo_create_branch (args(''sourceBranch'' \<mapsto> PStr ''main'')) env"
    by (rule default_source_branch)
next
  fix us p r
  assume u: "UpdateRefs us p r \<in> set (snd (repo_create_branch args env))"
  let ?steps = "create_branch_steps (get_arg args ''project'') (get_arg args ''repositoryId'')
      (get_arg args ''branchName'') (get_arg_default args ''sourceBranch'' (PStr ''main'')) env"
  from u have "UpdateRefs us p r \<in> set (snd ?steps)"
    by (auto simp: repo_create_branch_def Let_def split: if_splits prod.splits sum.splits)
  from create_branch_steps_update [OF this]
  show "\<exists>source_name branch source_ref others.
         get_arg_default args ''sourceBranch'' (PStr ''main'') = PStr source_name \<and>
         get_arg args ''branchName'' = PStr branch \<and>
         get_refs env (get_arg args ''project'') (get_arg args ''repositoryId'')
           (qualified_ref source_name) = Inr (source_ref # others) \<and>
         us = [\<lparr>name = qualified_ref branch,
                oldObjectId = ''0000000000000000000000000000000000000000'',
                newObjectId = object_id source_ref\<rparr>] \<and>
         p = get_arg args ''project'' \<and> r = get_arg args ''repositoryId''"
    by (simp add: ZERO_OBJECT_ID_def)
next
  show "length ''0000000000000000000000000000000000000000'' = 40" by simp
qed

theorem create_branch_ref_update_witness:
  "UpdateRefs
     [\<lparr>name = ''refs/heads/topic'',
       oldObjectId = ''0000000000000000000000000000000000000000'',
       newObjectId = ''5f2a9c0e5f2a9c0e5f2a9c0e5f2a9c0e5f2a9c0e''\<rparr>]
     (PStr ''Fabrikam'') (PStr ''web'')
     \<in> set (snd (repo_create_branch
          [''project'' \<mapsto> PStr ''Fabrikam'', ''repositoryId'' \<mapsto> PStr ''web'',
           ''branchName'' \<mapsto> PStr ''topic''] sample_env)) \<and>
   repo_create_branch
     [''project'' \<mapsto> PStr ''Fabrikam'', ''repositoryId'' \<mapsto> PStr ''web'',
      ''branchName'' \<mapsto> PStr ''topic''] sample_env =
   repo_create_branch
     [''project'' \<mapsto> PStr ''Fabrikam'', ''repositoryId'' \<mapsto> PStr ''web'',
      ''branchName'' \<mapsto> PStr ''topic'', ''sourceBranch'' \<mapsto> PStr ''main''] sample_env"
proof -
  let ?args = "[''project'' \<mapsto> PStr ''Fabrikam'', ''repositoryId'' \<mapsto> PStr ''web'',
      ''branchName'' \<mapsto> PStr ''topic'']"
  have n: "?args ''sourceBranch'' = None" by simp
  have a: "UpdateRefs
     [\<lparr>name = ''refs/heads/topic'',
       oldObjectId = ''0000000000000000000000000000000000000000'',
       newObjectId = ''5f2a9c0e5f2a9c0e5f2a9c0e5f2a9c0e5f2a9c0e''\<rparr>]
     (PStr ''Fabrikam'') (PStr ''web'') \<in> set (snd (repo_create_branch ?args sample_env))"
    by (simp add: sample_create_branch)
  from create_branch_ref_update [of ?args sample_env] n
  have b: "repo_create_branch ?args sample_env =
      repo_create_branch (?args(''sourceBranch'' \<mapsto> PStr ''main'')) sample_env"
    by blast
  from a b show ?thesis by (intro conjI)
qed

lemma child_link_type: "get_link_type_from_name ''child'' = ''System.LinkTypes.Hierarchy-Forward''"
  by code_simp

lemma unknown_link_type:
  "lower link_name \<notin> fst ` set link_types \<Longrightarrow> get_link_type_from_name link_name = link_name"
  by (simp add: get_link_type_from_name_def map_of_eq_None_iff [THEN iffD2])

lemma link_events:
  assumes "truthy (get_arg args ''sourceId'')" "truthy (get_arg args ''targetId'')"
    and "token_provider env = Inr token" "connection env token (org_url env) = None"
    and "wit_client env = None" "args ''linkType'' = Some (PStr link_name)"
  shows "snd (wit_work_items_link args env) =
     [TokenRequest, Connect token (org_url env), GetWitClient,
      UpdateWorkItem
        [\<lparr>op = ''add'', path = ''/relations/-'',
          val = \<lparr>rel = get_link_type_from_name link_name,
                 url = org_url env @ ''/_apis/wit/workItems/'' @
                       py_str env (get_arg args ''targetId'')\<rparr>\<rparr>]
        (get_arg args ''sourceId'')]"
  using assms
  by (simp add: wit_work_items_link_def Let_def get_arg_default_def link_patch_def
      split: sum.splits)

text \<open>
  Claim C8, amended. When both ids are present and the token, the connection and the
  work item client are obtained, \<open>wit_work_items_link\<close> sends one JSON-Patch operation
  \<open>add\<close> at \<open>/relations/-\<close> whose \<open>rel\<close> is the resolved link type; \<open>child\<close> resolves
  to \<open>System.LinkTypes.Hierarchy-Forward\<close>; every link type whose lower-cased form is
  not a key of the table is passed through unchanged. As stated, for every string that
  is not a key of the table, the claim fails at \<open>Child\<close>: the lookup is by the
  lower-cased name.
\<close>

theorem link_type_resolution:
  "(truthy (get_arg args ''sourceId'') \<and> truthy (get_arg args ''targetId'') \<and>
    token_provider env = Inr token \<and> connection env token (org_url env) = None \<and>
    wit_client env = None \<and> args ''linkType'' = Some (PStr link_name) \<longrightarrow>
      snd (wit_work_items_link args env) =
        [TokenRequest, Connect token (org_url env), GetWitClient,
         UpdateWorkItem
           [\<lparr>op = ''add'', path = ''/relations/-'',
             val = \<lparr>rel = get_link_type_from_name link_name,
                    url = org_url env @ ''/_apis/wit/workItems/'' @
                          py_str env (get_arg args ''targetId'')\<rparr>\<rparr>]
           (get_arg args ''sourceId'')]) \<and>
   get_link_type_from_name ''child'' = ''System.LinkTypes.Hierarchy-Forward'' \<and>
   (lower link_name \<notin> fst ` set link_types \<longrightarrow> get_link_type_from_name link_name = link_name)"
  using link_events [of args env token link_name] child_link_type unknown_link_type [of link_name]
  by blast

theorem link_type_resolution_witness:
  "snd (wit_work_items_link
     [''sourceId'' \<mapsto> PInt 7, ''targetId'' \<mapsto> PStr ''9'', ''linkType'' \<mapsto> PStr ''child'']
     sample_env) =
     [TokenRequest, Connect ''token'' ''https://dev.azure.com/contoso'', GetWitClient,
      UpdateWorkItem
        [\<lparr>op = ''add'', path = ''/relations/-'',
          val = \<lparr>rel = ''System.LinkTypes.Hierarchy-Forward'',
                 url = ''https://dev.azure.com/contoso/_apis/wit/workItems/9''\<rparr>\<rparr>]
        (PInt 7)] \<and>
   get_link_type_from_name ''blocks'' = ''blocks''"
proof -
  have l: "lower ''blocks'' \<notin> fst ` set link_types" by code_simp
  show ?thesis
    using link_type_resolution [of
        "[''sourceId'' \<mapsto> PInt 7, ''targetId'' \<mapsto> PStr ''9'', ''linkType'' \<mapsto> PStr ''child'']"
        sample_env "''token''" "''child''"]
      link_type_resolution [of Map.empty sample_env "''token''" "''blocks''"] l
    by (simp add: get_arg_def sample_env_def)
qed

theorem link_type_case_counterexample:
  "''Child'' \<notin> fst ` set link_types \<and>
   get_link_type_from_name ''Child'' = ''System.LinkTypes.Hierarchy-Forward'' \<and>
   get_link_type_from_name ''Child'' \<noteq> ''Child''"
  by code_simp

end
